theory Spec2Isabelle
  imports Main "HOL-Library.Word"
begin

unbundle bit_operations_syntax

section \<open>The GAME PLAN driver: I/O multiplexer and audio handshake\<close>

text \<open>
  A shallow embedding of the callbacks of \<^verbatim>\<open>src/mame/gameplan/gameplan.cpp\<close>:
  \<^verbatim>\<open>io_select_w\<close>, \<^verbatim>\<open>io_port_r\<close>, \<^verbatim>\<open>coin_w\<close>, \<^verbatim>\<open>audio_reset_w\<close>,
  \<^verbatim>\<open>audio_cmd_w\<close>, \<^verbatim>\<open>audio_trigger_w\<close>, \<^verbatim>\<open>r6532_irq\<close>, \<^verbatim>\<open>machine_start\<close> and
  \<^verbatim>\<open>machine_reset\<close>. Every callback is a function from the machine to the machine. The
  devices the driver calls into (audio CPU, RIOT, scheduler, bookkeeping) are fields of the
  machine, and every call into one of them is also appended to a log, so that the order of
  the calls can be stated.
\<close>

subsection \<open>Types and constants of the emulator core\<close>

type_synonym uint8 = "8 word"

text \<open>
  \<^verbatim>\<open>WRITE_LINE_MEMBER(f)\<close> declares \<^verbatim>\<open>void f(int state)\<close>: the level of a line arrives as a
  C++ \<^verbatim>\<open>int\<close>, 32 bits wide.
\<close>

type_synonym cint = "32 word"

text \<open>
  Modelled from the spec: the enumeration \<^verbatim>\<open>line_state\<close> is declared in the emulator
  core, outside the driver. \<^verbatim>\<open>CLEAR_LINE\<close> is the inactive level and \<^verbatim>\<open>ASSERT_LINE\<close> the
  asserted level of an input line; as integers they are 0 and 1.
\<close>

definition CLEAR_LINE :: cint where
  "CLEAR_LINE = 0"

definition ASSERT_LINE :: cint where
  "ASSERT_LINE = 1"

text \<open>
  The input lines of a processor core: a numbered interrupt input, or the reset input
  \<^verbatim>\<open>INPUT_LINE_RESET\<close> (a constant of the emulator core, different from every interrupt
  line number).
\<close>

datatype input_line = Line cint | INPUT_LINE_RESET

text \<open>
  Modelled from the spec: \<^verbatim>\<open>attotime\<close> is declared in the emulator core; it is a span of
  emulated time, counted here in attoseconds. \<^verbatim>\<open>attotime::zero\<close> is the empty span and
  \<^verbatim>\<open>attotime::from_usec(n)\<close> is \<open>n\<close> microseconds.
\<close>

type_synonym attotime = nat

definition attotime_zero :: attotime where
  "attotime_zero = 0"

definition from_usec :: "nat \<Rightarrow> attotime" where
  "from_usec us = us * 10 ^ 12"

subsection \<open>The machine\<close>

text \<open>The calls the driver makes into its collaborators, as they appear in the source.\<close>

datatype call =
    Set_input_line input_line cint
  | Riot_reset
  | Porta_in_set uint8 uint8
  | Boost_interleave attotime attotime
  | Coin_counter_w cint cint
  | Save_item string

text \<open>
  The driver's own fields are \<open>m_current_port\<close> and the five \<open>m_video_\<close> fields (8-bit
  members of \<^verbatim>\<open>gameplan_state\<close>). The other fields are the state of the collaborators that
  the callbacks act on: the level last put on each input line of the audio CPU, the port A
  input latch of the RIOT, the coin counter of channel 0 with the level it saw last, and
  the log of all calls in the order they were made.
\<close>

record machine =
  m_current_port :: uint8
  m_video_x :: uint8
  m_video_y :: uint8
  m_video_command :: uint8
  m_video_data :: uint8
  m_video_previous :: uint8
  audiocpu_line :: "input_line \<Rightarrow> cint"
  riot_porta_in :: uint8
  coin_count :: nat
  lastcoin :: cint
  calls :: "call list"

subsection \<open>Collaborators\<close>

text \<open>
  \<^verbatim>\<open>m_audiocpu->set_input_line(line, level)\<close>: the processor core keeps the level of the
  line.
\<close>

definition set_input_line :: "input_line \<Rightarrow> cint \<Rightarrow> machine \<Rightarrow> machine" where
  "set_input_line l v s =
     s\<lparr>audiocpu_line := (audiocpu_line s)(l := v),
       calls := calls s @ [Set_input_line l v]\<rparr>"

text \<open>
  Modelled from the spec: \<^verbatim>\<open>riot6532_device::reset\<close> is not part of the driver. The spec
  says that a reset puts the timer/port device in its power-on state and that the latched
  values return to zero.
\<close>

definition riot_reset :: "machine \<Rightarrow> machine" where
  "riot_reset s = s\<lparr>riot_porta_in := 0, calls := calls s @ [Riot_reset]\<rparr>"

text \<open>
  Modelled from the spec: \<^verbatim>\<open>riot6532_device::porta_in_set(data, mask)\<close> is not part of the
  driver. The spec calls it a masked update of the command latch byte: the bits of the
  mask are taken from the data, the other bits persist.
\<close>

definition porta_in_set :: "uint8 \<Rightarrow> uint8 \<Rightarrow> machine \<Rightarrow> machine" where
  "porta_in_set data msk s =
     s\<lparr>riot_porta_in := (riot_porta_in s AND NOT msk) OR (data AND msk),
       calls := calls s @ [Porta_in_set data msk]\<rparr>"

text \<open>
  \<^verbatim>\<open>machine().scheduler().boost_interleave(delay, duration)\<close>: a request, with no state
  kept by the driver.
\<close>

definition boost_interleave :: "attotime \<Rightarrow> attotime \<Rightarrow> machine \<Rightarrow> machine" where
  "boost_interleave delay duration s =
     s\<lparr>calls := calls s @ [Boost_interleave delay duration]\<rparr>"

text \<open>
  Modelled from the spec: \<^verbatim>\<open>bookkeeping_manager::coin_counter_w(num, on)\<close> is not part of
  the driver. The spec says that the counter expects active-high pulses and counts once
  per pulse: it counts when the level it is given becomes active, and remembers the level.
  The driver uses channel 0 only; other channels are not modelled.
\<close>

definition coin_counter_w :: "cint \<Rightarrow> cint \<Rightarrow> machine \<Rightarrow> machine" where
  "coin_counter_w num on s =
     (if num = 0
      then s\<lparr>coin_count := (if on \<noteq> 0 \<and> lastcoin s = 0 then coin_count s + 1
                            else coin_count s),
             lastcoin := on,
             calls := calls s @ [Coin_counter_w num on]\<rparr>
      else s\<lparr>calls := calls s @ [Coin_counter_w num on]\<rparr>)"

text \<open>\<^verbatim>\<open>save_item(NAME(field))\<close> registers a field for save states.\<close>

definition save_item :: "string \<Rightarrow> machine \<Rightarrow> machine" where
  "save_item name s = s\<lparr>calls := calls s @ [Save_item name]\<rparr>"

subsection \<open>VIA 2: I/O\<close>

text \<open>
  The \<^verbatim>\<open>switch\<close> of \<^verbatim>\<open>io_select_w\<close> has six cases and no default: any other byte leaves
  the machine as it is.
\<close>

definition io_select_w :: "uint8 \<Rightarrow> machine \<Rightarrow> machine" where
  "io_select_w data s =
     (if data = 0x01 then s\<lparr>m_current_port := 0\<rparr>
      else if data = 0x02 then s\<lparr>m_current_port := 1\<rparr>
      else if data = 0x04 then s\<lparr>m_current_port := 2\<rparr>
      else if data = 0x08 then s\<lparr>m_current_port := 3\<rparr>
      else if data = 0x80 then s\<lparr>m_current_port := 4\<rparr>
      else if data = 0x40 then s\<lparr>m_current_port := 5\<rparr>
      else s)"

definition portnames :: "string list" where
  "portnames = [''IN0'', ''IN1'', ''IN2'', ''IN3'', ''DSW0'', ''DSW1'']"

text \<open>
  \<^verbatim>\<open>portnames[m_current_port]\<close> is a plain C++ array access: an index beyond the six
  entries is an error of the model. The input groups are supplied from outside as a
  function from the port name to the value read (\<^verbatim>\<open>ioport_value\<close>, 32 bits); the callback
  returns \<^verbatim>\<open>uint8_t\<close>, the low byte of it.
\<close>

datatype error = Index_out_of_range

definition io_port_r :: "(string \<Rightarrow> 32 word) \<Rightarrow> machine \<Rightarrow> error + uint8" where
  "io_port_r ioport s =
     (if unat (m_current_port s) < length portnames
      then Inr (ucast (ioport (portnames ! unat (m_current_port s))))
      else Inl Index_out_of_range)"

definition coin_w :: "cint \<Rightarrow> machine \<Rightarrow> machine" where
  "coin_w state s = coin_counter_w 0 (NOT state AND 1) s"

subsection \<open>VIA 3: audio\<close>

definition audio_reset_w :: "cint \<Rightarrow> machine \<Rightarrow> machine" where
  "audio_reset_w state s =
     (let s1 = set_input_line INPUT_LINE_RESET
                 (if state \<noteq> 0 then CLEAR_LINE else ASSERT_LINE) s
      in if state = 0
         then boost_interleave attotime_zero (from_usec 10) (riot_reset s1)
         else s1)"

definition audio_cmd_w :: "uint8 \<Rightarrow> machine \<Rightarrow> machine" where
  "audio_cmd_w data s = porta_in_set data 0x7f s"

text \<open>
  \<^verbatim>\<open>state << 7\<close> is computed on \<^verbatim>\<open>int\<close> and converted to the \<^verbatim>\<open>uint8_t\<close> parameter of
  \<^verbatim>\<open>porta_in_set\<close>.
\<close>

definition audio_trigger_w :: "cint \<Rightarrow> machine \<Rightarrow> machine" where
  "audio_trigger_w state s = porta_in_set (ucast (push_bit 7 state :: cint)) 0x80 s"

subsection \<open>RIOT: audio\<close>

definition r6532_irq :: "cint \<Rightarrow> machine \<Rightarrow> machine" where
  "r6532_irq state s =
     (let s1 = set_input_line (Line 0) state s
      in if state = ASSERT_LINE
         then boost_interleave attotime_zero (from_usec 10) s1
         else s1)"

subsection \<open>Machine drivers\<close>

definition machine_start :: "machine \<Rightarrow> machine" where
  "machine_start s =
     save_item ''m_video_previous''
       (save_item ''m_video_data''
         (save_item ''m_video_command''
           (save_item ''m_video_y''
             (save_item ''m_video_x''
               (save_item ''m_current_port'' s)))))"

definition machine_reset :: "machine \<Rightarrow> machine" where
  "machine_reset s =
     s\<lparr>m_current_port := 0,
       m_video_x := 0,
       m_video_y := 0,
       m_video_command := 0,
       m_video_data := 0,
       m_video_previous := 0\<rparr>"

subsection \<open>Runs of the driver\<close>

text \<open>
  The operations of the driver that change the machine, and a run of them from a state.
  \<^verbatim>\<open>io_port_r\<close> only reads.
\<close>

datatype operation =
    Io_select_w uint8
  | Coin_w cint
  | Audio_reset_w cint
  | Audio_cmd_w uint8
  | Audio_trigger_w cint
  | R6532_irq cint
  | Machine_start
  | Machine_reset

fun exec :: "operation \<Rightarrow> machine \<Rightarrow> machine" where
  "exec (Io_select_w d) s = io_select_w d s"
| "exec (Coin_w v) s = coin_w v s"
| "exec (Audio_reset_w v) s = audio_reset_w v s"
| "exec (Audio_cmd_w d) s = audio_cmd_w d s"
| "exec (Audio_trigger_w v) s = audio_trigger_w v s"
| "exec (R6532_irq v) s = r6532_irq v s"
| "exec Machine_start s = machine_start s"
| "exec Machine_reset s = machine_reset s"

fun run :: "operation list \<Rightarrow> machine \<Rightarrow> machine" where
  "run [] s = s"
| "run (x # xs) s = run xs (exec x s)"

text \<open>The selected port index is one of the six entries of the table.\<close>

definition port_in_range :: "machine \<Rightarrow> bool" where
  "port_in_range s = (unat (m_current_port s) < 6)"

text \<open>A machine with all fields zero, every line clear and nothing logged.\<close>

definition machine0 :: machine where
  "machine0 =
     \<lparr>m_current_port = 0, m_video_x = 0, m_video_y = 0, m_video_command = 0,
      m_video_data = 0, m_video_previous = 0, audiocpu_line = (\<lambda>_. 0),
      riot_porta_in = 0, coin_count = 0, lastcoin = 0, calls = []\<rparr>"

section \<open>Helper lemmas\<close>

subsection \<open>The two masks\<close>

lemma bit_int_0x7f: "bit (0x7f :: int) n \<longleftrightarrow> n < 7"
proof -
  have e: "(0x7f :: int) = mask 7" by (simp add: mask_eq_exp_minus_1)
  have "bit (mask 7 :: int) n \<longleftrightarrow> n < 7"
    unfolding bit_mask_iff by auto
  then show ?thesis by (simp only: e)
qed

lemma bit_int_0x80: "bit (0x80 :: int) n \<longleftrightarrow> n = 7"
proof -
  have e: "(0x80 :: int) = push_bit 7 1" by simp
  have "bit (push_bit 7 1 :: int) n \<longleftrightarrow> n = 7"
    unfolding bit_push_bit_iff by (auto simp add: bit_1_iff)
  then show ?thesis by (simp only: e)
qed

lemma not_0x7f: "NOT (0x7f :: uint8) = 0x80"
  by simp

lemma not_0x80: "NOT (0x80 :: uint8) = 0x7f"
  by simp

lemma masked_cmd:
  "(x AND NOT 0x7f) OR (c AND 0x7f) = (x AND 0x80) OR (c AND (0x7f :: uint8))"
  by (simp only: not_0x7f)

text \<open>The byte that \<^verbatim>\<open>audio_trigger_w\<close> hands over has bit 7 only, bit 0 of the level.\<close>

lemma trigger_byte:
  "ucast (push_bit 7 v :: cint) AND (0x80 :: uint8) = push_bit 7 (ucast v)"
  by (rule bit_word_eqI) (auto simp add: bit_simps bit_int_0x80)

lemma masked_trigger:
  "(x AND NOT 0x80) OR (ucast (push_bit 7 v :: cint) AND 0x80) =
   (x AND 0x7f) OR (push_bit 7 (ucast v) :: uint8)"
  by (simp only: not_0x80 trigger_byte)

subsection \<open>The latch after a write\<close>

lemma riot_porta_in_porta_in_set:
  "riot_porta_in (porta_in_set d m s) = (riot_porta_in s AND NOT m) OR (d AND m)"
  by (simp add: porta_in_set_def)

lemma latch_cmd:
  "riot_porta_in (audio_cmd_w c s) = (riot_porta_in s AND 0x80) OR (c AND 0x7f)"
  unfolding audio_cmd_w_def riot_porta_in_porta_in_set by (rule masked_cmd)

lemma latch_trigger:
  "riot_porta_in (audio_trigger_w v s) = (riot_porta_in s AND 0x7f) OR push_bit 7 (ucast v)"
  unfolding audio_trigger_w_def riot_porta_in_porta_in_set by (rule masked_trigger)

subsection \<open>The coin line\<close>

lemma inverted_level: "NOT state AND (1 :: cint) = (if bit state 0 then 0 else 1)"
  by (simp add: and_one_eq bit_0 mod_2_eq_odd)

lemma calls_coin_w: "calls (coin_w state s) = calls s @ [Coin_counter_w 0 (NOT state AND 1)]"
  by (simp add: coin_w_def coin_counter_w_def)

lemma coin_count_coin_w:
  "coin_count (coin_w state s) =
     (if \<not> bit state 0 \<and> lastcoin s = 0 then coin_count s + 1 else coin_count s)"
  by (simp add: coin_w_def coin_counter_w_def inverted_level)

lemma lastcoin_coin_w: "lastcoin (coin_w state s) = (if bit state 0 then 0 else 1)"
  by (simp add: coin_w_def coin_counter_w_def inverted_level)

subsection \<open>The selected port index\<close>

lemma m_current_port_collab:
  "m_current_port (set_input_line l v s) = m_current_port s"
  "m_current_port (riot_reset s) = m_current_port s"
  "m_current_port (porta_in_set d m s) = m_current_port s"
  "m_current_port (boost_interleave a b s) = m_current_port s"
  "m_current_port (coin_counter_w n on s) = m_current_port s"
  "m_current_port (save_item nm s) = m_current_port s"
  by (simp_all add: set_input_line_def riot_reset_def porta_in_set_def boost_interleave_def
      coin_counter_w_def save_item_def)

lemma port_in_range_machine_reset: "port_in_range (machine_reset s)"
  by (simp add: port_in_range_def machine_reset_def)

lemma port_in_range_io_select_w: "port_in_range s \<Longrightarrow> port_in_range (io_select_w d s)"
  by (simp add: port_in_range_def io_select_w_def)

lemma port_in_range_exec: "port_in_range s \<Longrightarrow> port_in_range (exec x s)"
proof (cases x)
  case (Io_select_w d)
  assume "port_in_range s"
  then show ?thesis using Io_select_w by (simp add: port_in_range_io_select_w)
next
  case Machine_reset
  then show ?thesis by (simp add: port_in_range_machine_reset)
qed (simp_all add: port_in_range_def coin_w_def audio_reset_w_def audio_cmd_w_def
      audio_trigger_w_def r6532_irq_def machine_start_def Let_def m_current_port_collab)

lemma port_in_range_run: "port_in_range s \<Longrightarrow> port_in_range (run xs s)"
  by (induction xs arbitrary: s) (simp_all add: port_in_range_exec)

lemma io_port_r_in_range:
  "port_in_range s \<Longrightarrow>
   io_port_r ioport s = Inr (ucast (ioport (portnames ! unat (m_current_port s))))"
  by (simp add: io_port_r_def port_in_range_def portnames_def)

section \<open>Properties\<close>

subsection \<open>Port multiplexer\<close>

text \<open>
  C2: each of the six select codes 0x01, 0x02, 0x04, 0x08, 0x80, 0x40 sets the port index to
  0, 1, 2, 3, 4, 5 respectively, from any machine state (so whatever was selected before),
  and \<^verbatim>\<open>io_port_r\<close> then returns the byte of the input group IN0, IN1, IN2, IN3, DSW0, DSW1
  of that index. With group IN2 at 0xA5, selecting 0x04 makes \<^verbatim>\<open>io_port_r\<close> return 0xA5.
\<close>

theorem io_select_w_then_io_port_r:
  "m_current_port (io_select_w 0x01 s) = 0
   \<and> io_port_r ioport (io_select_w 0x01 s) = Inr (ucast (ioport ''IN0''))
   \<and> m_current_port (io_select_w 0x02 s) = 1
   \<and> io_port_r ioport (io_select_w 0x02 s) = Inr (ucast (ioport ''IN1''))
   \<and> m_current_port (io_select_w 0x04 s) = 2
   \<and> io_port_r ioport (io_select_w 0x04 s) = Inr (ucast (ioport ''IN2''))
   \<and> m_current_port (io_select_w 0x08 s) = 3
   \<and> io_port_r ioport (io_select_w 0x08 s) = Inr (ucast (ioport ''IN3''))
   \<and> m_current_port (io_select_w 0x80 s) = 4
   \<and> io_port_r ioport (io_select_w 0x80 s) = Inr (ucast (ioport ''DSW0''))
   \<and> m_current_port (io_select_w 0x40 s) = 5
   \<and> io_port_r ioport (io_select_w 0x40 s) = Inr (ucast (ioport ''DSW1''))
   \<and> io_port_r (ioport(''IN2'' := 0xA5)) (io_select_w 0x04 s) = Inr 0xA5"
  by (simp add: io_select_w_def io_port_r_def portnames_def)

text \<open>
  C5: a byte that is none of the six select codes leaves the machine as it is, the port
  index included; \<^verbatim>\<open>io_select_w\<close> has no error result, and \<^verbatim>\<open>io_port_r\<close> returns after
  the write what it returned before.
\<close>

theorem io_select_w_invalid_noop:
  "data \<notin> {0x01, 0x02, 0x04, 0x08, 0x80, 0x40} \<Longrightarrow>
   io_select_w data s = s
   \<and> m_current_port (io_select_w data s) = m_current_port s
   \<and> io_port_r ioport (io_select_w data s) = io_port_r ioport s"
  by (simp add: io_select_w_def)

text \<open>
  The byte 0xFF is no select code: after selecting group IN2, which holds 0xA5, writing
  0xFF changes nothing and the read still gives 0xA5.
\<close>

theorem io_select_w_invalid_noop_witness:
  "(0xFF :: uint8) \<notin> {0x01, 0x02, 0x04, 0x08, 0x80, 0x40}
   \<and> io_select_w 0xFF (io_select_w 0x04 machine0) = io_select_w 0x04 machine0
   \<and> io_port_r ((\<lambda>_. 0)(''IN2'' := 0xA5)) (io_select_w 0xFF (io_select_w 0x04 machine0)) =
       Inr 0xA5"
  using io_select_w_invalid_noop
    [where data = "0xFF" and s = "io_select_w 0x04 machine0"
       and ioport = "(\<lambda>_. 0)(''IN2'' := 0xA5)"]
  by (simp add: io_select_w_def io_port_r_def portnames_def machine0_def)

text \<open>
  C8: \<^verbatim>\<open>machine_reset\<close> sets the selected port index to 0, so that \<^verbatim>\<open>io_port_r\<close> right
  after a reset reads input group IN0; \<^verbatim>\<open>machine_start\<close> registers \<open>m_current_port\<close> for
  save states, followed by the five video fields.
\<close>

theorem machine_reset_and_start:
  "m_current_port (machine_reset s) = 0
   \<and> io_port_r ioport (machine_reset s) = Inr (ucast (ioport ''IN0''))
   \<and> calls (machine_start s) =
       calls s @ [Save_item ''m_current_port'', Save_item ''m_video_x'',
                  Save_item ''m_video_y'', Save_item ''m_video_command'',
                  Save_item ''m_video_data'', Save_item ''m_video_previous'']"
  by (simp add: machine_reset_def machine_start_def save_item_def io_port_r_def portnames_def)

text \<open>
  C9: the selected port index is below 6 after \<^verbatim>\<open>machine_reset\<close>; every operation of the
  driver keeps it below 6; \<^verbatim>\<open>io_select_w\<close> either stores an index below 6 or changes
  nothing; so after a reset and any run of operations the index is below 6 and the lookup
  in the six-entry table of \<^verbatim>\<open>io_port_r\<close> is never out of range.
\<close>

theorem current_port_in_range:
  "port_in_range (machine_reset s)
   \<and> (port_in_range s \<longrightarrow> port_in_range (exec x s))
   \<and> (port_in_range (io_select_w d s) \<or> io_select_w d s = s)
   \<and> port_in_range (run xs (machine_reset s))
   \<and> io_port_r ioport (run xs (machine_reset s)) \<noteq> Inl Index_out_of_range"
  using port_in_range_run [OF port_in_range_machine_reset, of xs s]
  by (auto simp add: port_in_range_machine_reset port_in_range_exec io_port_r_in_range)
     (simp add: io_select_w_def port_in_range_def split: if_splits)

text \<open>From index 3, selecting code 0x40 gives index 5: in range before and after.\<close>

theorem current_port_in_range_witness:
  "port_in_range (machine0\<lparr>m_current_port := 3\<rparr>)
   \<and> port_in_range (exec (Io_select_w 0x40) (machine0\<lparr>m_current_port := 3\<rparr>))
   \<and> m_current_port (exec (Io_select_w 0x40) (machine0\<lparr>m_current_port := 3\<rparr>)) = 5"
  using current_port_in_range
    [where s = "machine0\<lparr>m_current_port := 3\<rparr>" and x = "Io_select_w 0x40"
       and d = 0 and xs = "[]" and ioport = "\<lambda>_. 0"]
  by (simp add: port_in_range_def machine0_def io_select_w_def)

subsection \<open>Coin counter\<close>

text \<open>
  C6: \<^verbatim>\<open>coin_w\<close> calls the coin counter on channel 0 with bit 0 of the inverted level:
  1 when the incoming line is low, 0 when it is high. With the counter as the spec
  describes it, a call of \<^verbatim>\<open>coin_w\<close> that follows another one counts one coin exactly
  when the line was high before and is low now, and nothing otherwise.
\<close>

theorem coin_w_inverts:
  "calls (coin_w state s) = calls s @ [Coin_counter_w 0 (NOT state AND 1)]
   \<and> NOT state AND 1 = (if bit state 0 then 0 else 1)
   \<and> calls (coin_w 0 s) = calls s @ [Coin_counter_w 0 1]
   \<and> calls (coin_w 1 s) = calls s @ [Coin_counter_w 0 0]
   \<and> coin_count (coin_w cur (coin_w prev s)) =
       coin_count (coin_w prev s) + (if bit prev 0 \<and> \<not> bit cur 0 then 1 else 0)"
  by (simp add: calls_coin_w coin_count_coin_w lastcoin_coin_w inverted_level)

subsection \<open>Command latch\<close>

text \<open>
  C3: \<^verbatim>\<open>audio_cmd_w\<close> with byte \<open>c\<close> leaves the port A latch at (old AND 0x80) OR
  (c AND 0x7f), so bit 7 is as before; \<^verbatim>\<open>audio_trigger_w\<close> with level \<open>v\<close> leaves it at
  (old AND 0x7f) OR (v shifted left by 7, as a byte), so bits 0 to 6 are as before, bit 7
  is set for level 1 and clear for level 0; the command 0x3C written while the trigger bit
  is 1 makes the latch 0xBC.
\<close>

theorem audio_latch_masked_writes:
  "riot_porta_in (audio_cmd_w c s) = (riot_porta_in s AND 0x80) OR (c AND 0x7f)
   \<and> bit (riot_porta_in (audio_cmd_w c s)) 7 = bit (riot_porta_in s) 7
   \<and> riot_porta_in (audio_trigger_w v s) = (riot_porta_in s AND 0x7f) OR push_bit 7 (ucast v)
   \<and> riot_porta_in (audio_trigger_w v s) AND 0x7f = riot_porta_in s AND 0x7f
   \<and> riot_porta_in (audio_trigger_w 1 s) = (riot_porta_in s AND 0x7f) OR 0x80
   \<and> riot_porta_in (audio_trigger_w 0 s) = riot_porta_in s AND 0x7f
   \<and> riot_porta_in (audio_cmd_w 0x3C (audio_trigger_w 1 s)) = 0xBC"
proof -
  have bit7: "bit (riot_porta_in (audio_cmd_w c s)) 7 = bit (riot_porta_in s) 7"
    unfolding latch_cmd by (simp add: bit_simps bit_int_0x7f bit_int_0x80)
  have low: "riot_porta_in (audio_trigger_w v s) AND 0x7f = riot_porta_in s AND 0x7f"
    unfolding latch_trigger by (rule bit_word_eqI) (auto simp add: bit_simps bit_int_0x7f)
  have one: "riot_porta_in (audio_trigger_w 1 s) = (riot_porta_in s AND 0x7f) OR 0x80"
    unfolding latch_trigger by simp
  have zero: "riot_porta_in (audio_trigger_w 0 s) = riot_porta_in s AND 0x7f"
    unfolding latch_trigger by simp
  have scenario: "riot_porta_in (audio_cmd_w 0x3C (audio_trigger_w 1 s)) = 0xBC"
    unfolding latch_cmd latch_trigger by (simp add: word_ao_dist)
  from bit7 low one zero scenario show ?thesis
    by (simp only: latch_cmd latch_trigger simp_thms)
qed

text \<open>
  C4: from every latch value, for every command byte and every trigger level, the command
  write followed by the trigger write leaves the same latch byte as the trigger write
  followed by the command write.
\<close>

theorem audio_latch_writes_commute:
  "riot_porta_in (audio_trigger_w v (audio_cmd_w c s)) =
   riot_porta_in (audio_cmd_w c (audio_trigger_w v s))"
  unfolding latch_cmd latch_trigger
  by (rule bit_word_eqI) (auto simp add: bit_simps bit_int_0x7f bit_int_0x80)

subsection \<open>Audio reset\<close>

text \<open>
  C1 as stated fails. Level 1 is the level at which \<^verbatim>\<open>audio_reset_w\<close> releases the reset
  input of the audio CPU, and there the handler neither resets the RIOT nor requests a
  boost; level 0 is the level at which it asserts the reset input, and there it does more
  than assert the input.
\<close>

theorem audio_reset_w_release_counterexample:
  "audiocpu_line (audio_reset_w 1 machine0) INPUT_LINE_RESET = CLEAR_LINE
   \<and> calls (audio_reset_w 1 machine0) \<noteq>
       [Set_input_line INPUT_LINE_RESET CLEAR_LINE, Riot_reset,
        Boost_interleave attotime_zero (from_usec 10)]
   \<and> Riot_reset \<notin> set (calls (audio_reset_w 1 machine0))
   \<and> audiocpu_line (audio_reset_w 0 machine0) INPUT_LINE_RESET = ASSERT_LINE
   \<and> calls (audio_reset_w 0 machine0) \<noteq> [Set_input_line INPUT_LINE_RESET ASSERT_LINE]
   \<and> Riot_reset \<in> set (calls (audio_reset_w 0 machine0))"
  by (simp add: audio_reset_w_def set_input_line_def riot_reset_def boost_interleave_def
      machine0_def Let_def)

text \<open>
  C1, amended: at level 0 \<^verbatim>\<open>audio_reset_w\<close> asserts the reset input of the audio CPU, then
  force-resets the RIOT to its power-on state (the port A latch reads zero afterwards,
  whatever it held), then requests an interleave boost with zero delay and a duration of
  10 microseconds, in this order; at every nonzero level it only clears the reset input:
  the RIOT latch is as before and the one call made is the one to the audio CPU.
\<close>

theorem audio_reset_w_sequence:
  "calls (audio_reset_w 0 s) =
     calls s @ [Set_input_line INPUT_LINE_RESET ASSERT_LINE, Riot_reset,
                Boost_interleave attotime_zero (from_usec 10)]
   \<and> audiocpu_line (audio_reset_w 0 s) INPUT_LINE_RESET = ASSERT_LINE
   \<and> riot_porta_in (audio_reset_w 0 s) = 0
   \<and> attotime_zero = 0 \<and> from_usec 10 = 10 * 10 ^ 12
   \<and> (state \<noteq> 0 \<longrightarrow>
        calls (audio_reset_w state s) = calls s @ [Set_input_line INPUT_LINE_RESET CLEAR_LINE]
        \<and> audiocpu_line (audio_reset_w state s) INPUT_LINE_RESET = CLEAR_LINE
        \<and> riot_porta_in (audio_reset_w state s) = riot_porta_in s)"
  by (simp add: audio_reset_w_def set_input_line_def riot_reset_def boost_interleave_def
      Let_def attotime_zero_def from_usec_def)

text \<open>
  With the command 0x3C in the latch, level 1 releases the reset input and leaves the latch
  at 0x3C; level 0 asserts the reset input and leaves the latch at zero.
\<close>

theorem audio_reset_w_sequence_witness:
  "(1 :: cint) \<noteq> 0
   \<and> calls (audio_reset_w 1 (audio_cmd_w 0x3C machine0)) =
       [Porta_in_set 0x3C 0x7f, Set_input_line INPUT_LINE_RESET CLEAR_LINE]
   \<and> audiocpu_line (audio_reset_w 1 (audio_cmd_w 0x3C machine0)) INPUT_LINE_RESET = CLEAR_LINE
   \<and> riot_porta_in (audio_reset_w 1 (audio_cmd_w 0x3C machine0)) = 0x3C
   \<and> riot_porta_in (audio_reset_w 0 (audio_cmd_w 0x3C machine0)) = 0"
  using audio_reset_w_sequence [where s = "audio_cmd_w 0x3C machine0" and state = 1]
  by (simp add: machine0_def audio_cmd_w_def porta_in_set_def)

text \<open>
  C10: at every nonzero level \<^verbatim>\<open>audio_reset_w\<close> clears the reset input of the audio CPU and
  changes nothing else in the machine: the RIOT latch is as before, and the calls it adds
  to the log hold no RIOT reset and no interleave boost.
\<close>

theorem audio_reset_w_nonzero_frame:
  "state \<noteq> 0 \<Longrightarrow>
   audio_reset_w state s =
     s\<lparr>audiocpu_line := (audiocpu_line s)(INPUT_LINE_RESET := CLEAR_LINE),
       calls := calls s @ [Set_input_line INPUT_LINE_RESET CLEAR_LINE]\<rparr>
   \<and> riot_porta_in (audio_reset_w state s) = riot_porta_in s
   \<and> Riot_reset \<notin> set (drop (length (calls s)) (calls (audio_reset_w state s)))
   \<and> (\<forall>d t. Boost_interleave d t \<notin>
               set (drop (length (calls s)) (calls (audio_reset_w state s))))"
  by (simp add: audio_reset_w_def set_input_line_def Let_def)

theorem audio_reset_w_nonzero_frame_witness:
  "(5 :: cint) \<noteq> 0
   \<and> audio_reset_w 5 machine0 =
       machine0\<lparr>audiocpu_line := (audiocpu_line machine0)(INPUT_LINE_RESET := CLEAR_LINE),
                calls := [Set_input_line INPUT_LINE_RESET CLEAR_LINE]\<rparr>"
  using audio_reset_w_nonzero_frame [where state = 5 and s = machine0]
  by (simp add: machine0_def)

subsection \<open>RIOT interrupt\<close>

text \<open>
  C7: \<^verbatim>\<open>r6532_irq\<close> puts its input level on interrupt line 0 of the audio CPU, whatever the
  level is, as the first thing it does in the call; it requests an interleave boost
  exactly when the level is \<^verbatim>\<open>ASSERT_LINE\<close>, and none when the level is \<^verbatim>\<open>CLEAR_LINE\<close>.
\<close>

theorem r6532_irq_forwards:
  "audiocpu_line (r6532_irq state s) (Line 0) = state
   \<and> calls (r6532_irq state s) =
       calls s @ Set_input_line (Line 0) state #
         (if state = ASSERT_LINE then [Boost_interleave attotime_zero (from_usec 10)] else [])
   \<and> calls (r6532_irq CLEAR_LINE s) = calls s @ [Set_input_line (Line 0) CLEAR_LINE]"
  by (simp add: r6532_irq_def set_input_line_def boost_interleave_def Let_def
      CLEAR_LINE_def ASSERT_LINE_def)

end
